theory Spec2Isabelle
  imports Main "HOL-Library.Word"
begin

section \<open>Common data: integers, addresses, errors\<close>

text \<open>
  Go's \<open>uint64\<close> is a 64-bit word (multiplication, addition and subtraction wrap).
  A \<open>solana.PublicKey\<close> is a 32-byte array; it is read here as one 256-bit word, most
  significant byte first. The zero key \<open>solana.PublicKey{}\<close> is the word 0. The Go maps
  keyed by \<open>pk.String()\<close> (the base58 text, one text per key) are maps keyed by the key.
\<close>

type_synonym u64 = "64 word"
type_synonym pubkey = "256 word"
type_synonym bytes = "8 word list"

text \<open>Package \<open>constants\<close> (\<open>pkg/constants/addresses.go\<close>): the base58 constants, decoded.\<close>

definition SystemProgramID :: pubkey where
  "SystemProgramID = 0"

definition TokenProgramID :: pubkey where
  "TokenProgramID = 3106054211088883198575105191760876350940303353676611666299516346430146937001"

definition Token2022ProgramID :: pubkey where
  "Token2022ProgramID = 3106054213517619466333521364411816883583182866730275619636245252638471457788"

definition AssociatedTokenProgramID :: pubkey where
  "AssociatedTokenProgramID = 63590851936555425018482094543133168213809614203979002813017495418995103889497"

definition WSOLMint :: pubkey where
  "WSOLMint = 2988679396378646993494765771507681406623014513651778753134412041978399162369"

definition PumpAmmProgramID :: pubkey where
  "PumpAmmProgramID = 5464630119619898166266341678619113288817485149253204375108042491183227316323"

definition PumpFeeProgramID :: pubkey where
  "PumpFeeProgramID = 5523161579545683411560766772452059568836141597500650743062411982055873346672"

definition PumpAmmFeeProgramID :: pubkey where
  "PumpAmmFeeProgramID = PumpFeeProgramID"

text \<open>
  Go errors. \<open>Canceled\<close> and \<open>DeadlineExceeded\<close> are \<open>context.Canceled\<close> and
  \<open>context.DeadlineExceeded\<close>; \<open>Errorf msg\<close> is \<open>fmt.Errorf\<close> with no wrapped error,
  \<open>Wrapf msg e\<close> is \<open>fmt.Errorf("msg: %w", e)\<close>; \<open>CallFailed op n e\<close> is the
  error of \<open>Client.call\<close>, \<open>fmt.Errorf("%s failed after %d attempts: %w", op, n, e)\<close>.
  Messages keep their fixed text; the formatted addresses and numbers are left out.
\<close>

datatype error =
    Canceled
  | DeadlineExceeded
  | Transport nat
  | ErrNilRPC
  | ValidationError string string
  | Errorf string
  | Wrapf string error
  | CallFailed string int "error option"
  | SimulationFailure nat "string list"
  | DeriveFailure nat

text \<open>A run-time panic of the Go code (index out of range, \<open>rand.Int63n\<close> on a non-positive bound).\<close>

datatype 'a outcome = Returned 'a | Panicked

section \<open>Slippage (\<open>pkg/autofill/pump_amm.go\<close>, \<open>applySlippage\<close>)\<close>

definition applySlippage :: "u64 \<Rightarrow> u64 \<Rightarrow> u64" where
  "applySlippage amount slippageBps =
     (if slippageBps \<ge> 10000 then 0
      else amount * (10000 - slippageBps) div 10000)"

section \<open>The RPC client's retry loop (\<open>pkg/rpc\<close>, \<open>Client.call\<close>)\<close>

text \<open>\<open>errors.Is(err, target)\<close> for the two context errors: it follows the \<open>%w\<close> chain.\<close>

fun errorsIs :: "error \<Rightarrow> error \<Rightarrow> bool" where
  "errorsIs (Wrapf msg e) t = (Wrapf msg e = t \<or> errorsIs e t)"
| "errorsIs (CallFailed opn n (Some e)) t = (CallFailed opn n (Some e) = t \<or> errorsIs e t)"
| "errorsIs e t = (e = t)"

fun retryable :: "error option \<Rightarrow> bool" where
  "retryable None = True"
| "retryable (Some err) =
     (if errorsIs err Canceled \<or> errorsIs err DeadlineExceeded then False else True)"

text \<open>
  \<open>config.RetryConfig\<close>; a \<open>time.Duration\<close> is an \<open>int64\<close> count of nanoseconds, kept
  as an integer with the wrap-around of \<open>delay *= 2\<close> written out.
\<close>

record RetryConfig =
  Enabled :: bool
  MaxAttempts :: int
  InitialBackoff :: int
  MaxBackoff :: int
  Jitter :: bool

definition wrap_int64 :: "int \<Rightarrow> int" where
  "wrap_int64 x = (x + 2 ^ 63) mod 2 ^ 64 - 2 ^ 63"

text \<open>Go's integer division truncates towards zero.\<close>

definition go_div :: "int \<Rightarrow> int \<Rightarrow> int" where
  "go_div a b = sgn a * sgn b * (\<bar>a\<bar> div \<bar>b\<bar>)"

text \<open>The doubling loop of \<open>backoff\<close>: \<open>k\<close> iterations are left.\<close>

fun backoff_loop :: "RetryConfig \<Rightarrow> nat \<Rightarrow> int \<Rightarrow> int" where
  "backoff_loop cfg 0 delay = delay"
| "backoff_loop cfg (Suc k) delay =
     (let delay2 = wrap_int64 (delay * 2)
      in if delay2 > MaxBackoff cfg \<and> MaxBackoff cfg > 0 then MaxBackoff cfg
         else backoff_loop cfg k delay2)"

text \<open>
  \<open>backoff\<close>: \<open>rnd n\<close> is the value drawn by \<open>rand.Int63n(n)\<close>, which panics when
  \<open>n \<le> 0\<close>.
\<close>

definition backoff :: "RetryConfig \<Rightarrow> (int \<Rightarrow> int) \<Rightarrow> int \<Rightarrow> int outcome" where
  "backoff cfg rnd attempt0 =
     (let attempt = (if attempt0 < 0 then 0 else attempt0);
          delay0 = (if InitialBackoff cfg \<le> 0 then 100000000 else InitialBackoff cfg);
          delay = backoff_loop cfg (nat attempt) delay0
      in if Jitter cfg then
           (if go_div delay 2 \<le> 0 then Panicked
            else Returned (wrap_int64 (go_div delay 2 + rnd (go_div delay 2))))
         else Returned delay)"

text \<open>
  What one call meets: \<open>limiterWait\<close> is \<open>None\<close> when the client has no limiter
  (\<open>c.limiter == nil\<close>) and otherwise the result of \<open>c.limiter.Wait(ctx)\<close>;
  \<open>fn k\<close> is the result of the \<open>k\<close>-th invocation of the closure (counted from 0);
  \<open>ctxDone i\<close> is \<open>Some e\<close> when the \<open>select\<close> after attempt \<open>i\<close> takes the
  \<open>ctx.Done()\<close> branch, with \<open>ctx.Err() = e\<close>, and \<open>None\<close> when the timer fires;
  \<open>rnd\<close> is the random source of the jitter.
\<close>

record call_env =
  limiterWait :: "error option option"
  fn :: "nat \<Rightarrow> error option"
  ctxDone :: "nat \<Rightarrow> error option"
  rnd :: "int \<Rightarrow> int"

text \<open>
  The \<open>for i := 0; i < attempts; i++\<close> loop. The result is what \<open>call\<close> returns
  (or a panic) and the number of invocations of \<open>fn\<close> made.
\<close>

function call_loop ::
  "RetryConfig \<Rightarrow> call_env \<Rightarrow> string \<Rightarrow> nat \<Rightarrow> nat \<Rightarrow> error option \<Rightarrow> error option outcome \<times> nat"
where
  "call_loop cfg env opn attempts i err =
     (if i < attempts then
        (case fn env i of
           None \<Rightarrow> (Returned None, i + 1)
         | Some e \<Rightarrow>
             if \<not> retryable (Some e) \<or> i = attempts - 1
             then (Returned (Some (CallFailed opn (int attempts) (Some e))), i + 1)
             else (case backoff cfg (rnd env) (int i) of
                     Panicked \<Rightarrow> (Panicked, i + 1)
                   | Returned d \<Rightarrow>
                       (case ctxDone env i of
                          Some ce \<Rightarrow> (Returned (Some ce), i + 1)
                        | None \<Rightarrow> call_loop cfg env opn attempts (i + 1) (Some e))))
      else (Returned (Some (CallFailed opn (int attempts) err)), i))"
  by pat_completeness auto
termination
  by (relation "measure (\<lambda>(cfg, env, opn, attempts, i, err). attempts - i)") auto

text \<open>
  \<open>call\<close>. The deadline of \<open>withTimeout\<close> shows only through \<open>limiterWait\<close>,
  \<open>fn\<close> and \<open>ctxDone\<close>. \<open>attempts\<close> is at least 1, so it is kept as a natural
  number.
\<close>

definition call :: "RetryConfig \<Rightarrow> call_env \<Rightarrow> string \<Rightarrow> error option outcome \<times> nat" where
  "call cfg env opn =
     (case (case limiterWait env of None \<Rightarrow> None | Some r \<Rightarrow> r) of
        Some e \<Rightarrow> (Returned (Some e), 0)
      | None \<Rightarrow>
          if \<not> Enabled cfg then (Returned (fn env 0), 1)
          else call_loop cfg env opn (if MaxAttempts cfg \<le> 0 then 1 else nat (MaxAttempts cfg)) 0 None)"


declare call_loop.simps [simp del]

text \<open>Concrete configurations and runs: \<open>config.DefaultRPCConfig().Retry\<close> and four closures.\<close>

definition defaultRetry :: RetryConfig where
  "defaultRetry = \<lparr>Enabled = True, MaxAttempts = 3, InitialBackoff = 150000000,
                    MaxBackoff = 2000000000, Jitter = True\<rparr>"

definition run_deadline :: call_env where
  "run_deadline = \<lparr>limiterWait = Some None,
                    fn = (\<lambda>k. if k = 0 then Some (Transport 0) else None),
                    ctxDone = (\<lambda>i. Some DeadlineExceeded),
                    rnd = (\<lambda>n. 0)\<rparr>"

definition run_second_ok :: call_env where
  "run_second_ok = \<lparr>limiterWait = Some None,
                     fn = (\<lambda>k. if k = 0 then Some (Transport 0) else None),
                     ctxDone = (\<lambda>i. None),
                     rnd = (\<lambda>n. 0)\<rparr>"

definition run_all_fail :: call_env where
  "run_all_fail = \<lparr>limiterWait = Some None,
                    fn = (\<lambda>k. Some (Transport k)),
                    ctxDone = (\<lambda>i. None),
                    rnd = (\<lambda>n. 0)\<rparr>"

definition run_cancelled :: call_env where
  "run_cancelled = \<lparr>limiterWait = Some None,
                     fn = (\<lambda>k. Some (Wrapf ''rpc call'' Canceled)),
                     ctxDone = (\<lambda>i. None),
                     rnd = (\<lambda>n. 0)\<rparr>"


section \<open>On-chain data, instructions and the remote node\<close>

text \<open>
  \<open>solanarpc.Account\<close>, with the fields the code reads; \<open>Data\<close> is a pointer and may
  be nil.
\<close>

record Account =
  Lamports :: u64
  Owner :: pubkey
  Data :: "bytes option"

record AccountMeta =
  PublicKey :: pubkey
  IsWritable :: bool
  IsSigner :: bool

text \<open>\<open>solana.NewAccountMeta(pubKey, WRITE, SIGNER)\<close>.\<close>

definition NewAccountMeta :: "pubkey \<Rightarrow> bool \<Rightarrow> bool \<Rightarrow> AccountMeta" where
  "NewAccountMeta pk w s = \<lparr>PublicKey = pk, IsWritable = w, IsSigner = s\<rparr>"

text \<open>
  The records of the generated package \<open>pumpamm\<close>. \<open>Pool\<close> and \<open>GlobalConfig\<close>
  keep the fields the code reads. \<open>BuyAccounts\<close> and \<open>BuyExactQuoteInAccounts\<close> have the
  same 23 fields; their names carry a prefix, since one theory cannot hold two records
  with the same field names.
\<close>

record Pool =
  BaseMint :: pubkey
  QuoteMint :: pubkey
  PoolBaseTokenAccount :: pubkey
  PoolQuoteTokenAccount :: pubkey
  CoinCreator :: pubkey

record GlobalConfig =
  ProtocolFeeRecipients :: "pubkey list"

record BuyAccounts =
  b_Pool :: pubkey
  b_User :: pubkey
  b_GlobalConfig :: pubkey
  b_BaseMint :: pubkey
  b_QuoteMint :: pubkey
  b_UserBaseTokenAccount :: pubkey
  b_UserQuoteTokenAccount :: pubkey
  b_PoolBaseTokenAccount :: pubkey
  b_PoolQuoteTokenAccount :: pubkey
  b_ProtocolFeeRecipient :: pubkey
  b_ProtocolFeeRecipientTokenAccount :: pubkey
  b_BaseTokenProgram :: pubkey
  b_QuoteTokenProgram :: pubkey
  b_SystemProgram :: pubkey
  b_AssociatedTokenProgram :: pubkey
  b_EventAuthority :: pubkey
  b_Program :: pubkey
  b_CoinCreatorVaultAta :: pubkey
  b_CoinCreatorVaultAuthority :: pubkey
  b_GlobalVolumeAccumulator :: pubkey
  b_UserVolumeAccumulator :: pubkey
  b_FeeConfig :: pubkey
  b_FeeProgram :: pubkey

record BuyExactQuoteInAccounts =
  x_Pool :: pubkey
  x_User :: pubkey
  x_GlobalConfig :: pubkey
  x_BaseMint :: pubkey
  x_QuoteMint :: pubkey
  x_UserBaseTokenAccount :: pubkey
  x_UserQuoteTokenAccount :: pubkey
  x_PoolBaseTokenAccount :: pubkey
  x_PoolQuoteTokenAccount :: pubkey
  x_ProtocolFeeRecipient :: pubkey
  x_ProtocolFeeRecipientTokenAccount :: pubkey
  x_BaseTokenProgram :: pubkey
  x_QuoteTokenProgram :: pubkey
  x_SystemProgram :: pubkey
  x_AssociatedTokenProgram :: pubkey
  x_EventAuthority :: pubkey
  x_Program :: pubkey
  x_CoinCreatorVaultAta :: pubkey
  x_CoinCreatorVaultAuthority :: pubkey
  x_GlobalVolumeAccumulator :: pubkey
  x_UserVolumeAccumulator :: pubkey
  x_FeeConfig :: pubkey
  x_FeeProgram :: pubkey

record BuyExactQuoteInArgs =
  SpendableQuoteIn :: u64
  MinBaseAmountOut :: u64
  TrackVolume :: bool

record SellAccounts =
  s_Pool :: pubkey
  s_User :: pubkey
  s_GlobalConfig :: pubkey
  s_BaseMint :: pubkey
  s_QuoteMint :: pubkey
  s_UserBaseTokenAccount :: pubkey
  s_UserQuoteTokenAccount :: pubkey
  s_PoolBaseTokenAccount :: pubkey
  s_PoolQuoteTokenAccount :: pubkey
  s_ProtocolFeeRecipient :: pubkey
  s_ProtocolFeeRecipientTokenAccount :: pubkey
  s_BaseTokenProgram :: pubkey
  s_QuoteTokenProgram :: pubkey
  s_SystemProgram :: pubkey
  s_AssociatedTokenProgram :: pubkey
  s_EventAuthority :: pubkey
  s_Program :: pubkey
  s_CoinCreatorVaultAta :: pubkey
  s_CoinCreatorVaultAuthority :: pubkey
  s_FeeConfig :: pubkey
  s_FeeProgram :: pubkey

record SellArgs =
  BaseAmountIn :: u64
  MinQuoteAmountOut :: u64

text \<open>
  A \<open>solana.Instruction\<close>. \<open>Instruction\<close> is \<open>solana.NewInstruction(programID, metas,
  data)\<close>; the other constructors are the instructions built by the libraries:
  \<open>system.NewTransferInstruction(lamports, from, to).Build()\<close>,
  \<open>token.NewSyncNativeInstruction(account).Build()\<close>, and the swap instructions that
  \<open>pumpamm.BuildBuyExactQuoteIn(accounts, args)\<close> and \<open>pumpamm.BuildSell(accounts,
  args)\<close> encode from their two arguments.
\<close>

datatype instruction =
    Instruction pubkey "AccountMeta list" bytes
  | SystemTransfer u64 pubkey pubkey
  | SyncNative pubkey
  | BuyExactQuoteInIx BuyExactQuoteInAccounts BuyExactQuoteInArgs
  | SellIx SellAccounts SellArgs

record Transaction =
  RecentBlockHash :: nat
  FeePayer :: pubkey
  TxInstructions :: "instruction list"

text \<open>
  The value of a \<open>SimulateTransactionResponse\<close>: the execution error if any (an opaque
  JSON value, here a number), the logs, and the post-execution accounts asked for.
\<close>

record SimulateValue =
  SimErr :: "nat option"
  Logs :: "string list"
  SimAccounts :: "Account option list"

text \<open>
  Requests sent to the remote node, in the order sent. \<open>GetMultipleAccounts\<close> and
  \<open>GetAccountInfo\<close> go through \<open>rpc.Raw()\<close>: one entry is one remote call.
  \<open>GetLatestBlockhash\<close> and \<open>SimulateTransaction\<close> go through \<open>Client.call\<close>: one
  entry is one call of the wrapper.
\<close>

datatype rpc_request =
    GetMultipleAccounts "pubkey list"
  | GetAccountInfo pubkey
  | GetLatestBlockhash
  | SimulateTransaction Transaction pubkey

type_synonym trace = "rpc_request list"

text \<open>
  Everything outside the repository's own code: the remote node, whose answers may
  depend on the requests made so far, and the library functions (address derivation,
  decoders, the instruction encoders' failures). \<open>DecodeTokenAccount\<close> gives the
  \<open>Amount\<close> of the decoded \<open>token.Account\<close>. \<open>mentionsNotFound err\<close> stands for
  \<open>strings.Contains(err.Error(), "not found") || strings.Contains(err.Error(), "could not
  find")\<close>; \<open>txBuild\<close> is the failure, if any, of \<open>solana.TransactionBuilder.Build\<close>.
\<close>

record env =
  getMultipleAccounts :: "trace \<Rightarrow> pubkey list \<Rightarrow> error + Account option list"
  getAccountInfo :: "trace \<Rightarrow> pubkey \<Rightarrow> error + Account option"
  getLatestBlockhash :: "trace \<Rightarrow> error + nat"
  simulateTransaction :: "trace \<Rightarrow> Transaction \<Rightarrow> pubkey \<Rightarrow> error + SimulateValue option"
  mentionsNotFound :: "error \<Rightarrow> bool"
  txBuild :: "pubkey \<Rightarrow> instruction list \<Rightarrow> error option"
  findATA :: "pubkey \<Rightarrow> pubkey \<Rightarrow> pubkey \<Rightarrow> pubkey \<Rightarrow> error + pubkey"
  ProgramKey :: pubkey
  findGlobalConfig :: "error + pubkey"
  findCreatorVaultAuthority :: "pubkey \<Rightarrow> error + pubkey"
  DeriveBuyEventAuthorityPDA :: "BuyAccounts \<Rightarrow> error + pubkey"
  DeriveBuyGlobalVolumeAccumulatorPDA :: "BuyAccounts \<Rightarrow> error + pubkey"
  DeriveBuyUserVolumeAccumulatorPDA :: "BuyAccounts \<Rightarrow> error + pubkey"
  DeriveBuyFeeConfigPDA :: "BuyAccounts \<Rightarrow> error + pubkey"
  DeriveBuyCoinCreatorVaultAtaPDA :: "BuyAccounts \<Rightarrow> error + pubkey"
  DeriveBuyProtocolFeeRecipientTokenAccountPDA :: "BuyAccounts \<Rightarrow> error + pubkey"
  UnmarshalPool :: "bytes \<Rightarrow> error + Pool"
  UnmarshalGlobalConfig :: "bytes \<Rightarrow> error + GlobalConfig"
  DecodeTokenAccount :: "bytes \<Rightarrow> error + u64"
  BuildBuyExactQuoteInError :: "BuyExactQuoteInAccounts \<Rightarrow> BuyExactQuoteInArgs \<Rightarrow> error option"
  BuildSellError :: "SellAccounts \<Rightarrow> SellArgs \<Rightarrow> error option"

text \<open>
  What a function that talks to the node yields: a value, a returned error, or a
  run-time panic (which unwinds through every caller).
\<close>

datatype 'a result = Ok 'a | Err error | Panic

section \<open>Helpers of \<open>pkg/autofill/util.go\<close>\<close>

definition isZeroPK :: "pubkey \<Rightarrow> bool" where
  "isZeroPK pk = (pk = 0)"

fun firstNonZeroPK :: "pubkey list \<Rightarrow> pubkey" where
  "firstNonZeroPK [] = 0"
| "firstNonZeroPK (pk # rest) = (if \<not> isZeroPK pk then pk else firstNonZeroPK rest)"

definition findATAWithProgram :: "env \<Rightarrow> pubkey \<Rightarrow> pubkey \<Rightarrow> pubkey \<Rightarrow> pubkey \<Rightarrow> error + pubkey" where
  "findATAWithProgram e wallet mint tokenProgram ataProgram = findATA e wallet mint tokenProgram ataProgram"

text \<open>
  \<open>fetchAccountsBatch\<close>. The loop \<open>for i, v := range res.Value\<close> reads \<open>keys[i]\<close>
  only for a non-nil \<open>v\<close>; past the end of \<open>keys\<close> that read panics.
\<close>

fun collectAccounts ::
  "pubkey list \<Rightarrow> Account option list \<Rightarrow> (pubkey \<rightharpoonup> Account) \<Rightarrow> (pubkey \<rightharpoonup> Account) result"
where
  "collectAccounts keys [] out = Ok out"
| "collectAccounts keys (None # vs) out = collectAccounts (tl keys) vs out"
| "collectAccounts [] (Some v # vs) out = Panic"
| "collectAccounts (k # keys) (Some v # vs) out = collectAccounts keys vs (out(k \<mapsto> v))"

definition fetchAccountsBatch ::
  "env \<Rightarrow> pubkey list \<Rightarrow> trace \<Rightarrow> (pubkey \<rightharpoonup> Account) result \<times> trace"
where
  "fetchAccountsBatch e addrs tr =
     (if length addrs = 0 then (Ok Map.empty, tr)
      else
        (case getMultipleAccounts e tr addrs of
           Inl err \<Rightarrow> (Err err, tr @ [GetMultipleAccounts addrs])
         | Inr vs \<Rightarrow> (collectAccounts addrs vs Map.empty, tr @ [GetMultipleAccounts addrs])))"

section \<open>Associated token accounts (\<open>pkg/autofill/util.go\<close>)\<close>

record ataRequest =
  Payer :: pubkey
  Wallet :: pubkey
  Mint :: pubkey
  TokenProgram :: pubkey
  ATAProgram :: pubkey
  ATAAddr :: pubkey

record ensureATABatchResult =
  Instructions :: "instruction list"
  Balances :: "pubkey \<rightharpoonup> u64"

text \<open>The first loop of \<open>ensureATABatchWithBalances\<close>: derive each request's address.\<close>

fun deriveATAs :: "env \<Rightarrow> ataRequest list \<Rightarrow> error + ataRequest list" where
  "deriveATAs e [] = Inr []"
| "deriveATAs e (req # reqs) =
     (case findATAWithProgram e (Wallet req) (Mint req) (TokenProgram req) (ATAProgram req) of
        Inl err \<Rightarrow> Inl err
      | Inr ata \<Rightarrow>
          (case deriveATAs e reqs of
             Inl err \<Rightarrow> Inl err
           | Inr reqs' \<Rightarrow> Inr (req\<lparr>ATAAddr := ata\<rparr> # reqs')))"

text \<open>The instruction that creates the associated token account of a request.\<close>

definition createATAInstruction :: "ataRequest \<Rightarrow> instruction" where
  "createATAInstruction req =
     Instruction (ATAProgram req)
       [NewAccountMeta (Payer req) True True,
        NewAccountMeta (ATAAddr req) True False,
        NewAccountMeta (Wallet req) False False,
        NewAccountMeta (Mint req) False False,
        NewAccountMeta SystemProgramID False False,
        NewAccountMeta (TokenProgram req) False False]
       []"

text \<open>
  The second loop: an account that is present and owned by the request's token
  program is kept, and its balance is recorded when its data is there, not empty and
  decodes; any other request gets balance 0 and a creation instruction.
\<close>

fun ensureLoop ::
  "env \<Rightarrow> (pubkey \<rightharpoonup> Account) \<Rightarrow> ataRequest list \<Rightarrow> ensureATABatchResult \<Rightarrow> ensureATABatchResult"
where
  "ensureLoop e amap [] result = result"
| "ensureLoop e amap (req # reqs) result =
     (case amap (ATAAddr req) of
        Some acc \<Rightarrow>
          if Owner acc = TokenProgram req then
            (case Data acc of
               Some data \<Rightarrow>
                 if length data > 0 then
                   (case DecodeTokenAccount e data of
                      Inr amount \<Rightarrow>
                        ensureLoop e amap reqs
                          (result\<lparr>Balances := (Balances result)(ATAAddr req \<mapsto> amount)\<rparr>)
                    | Inl err \<Rightarrow> ensureLoop e amap reqs result)
                 else ensureLoop e amap reqs result
             | None \<Rightarrow> ensureLoop e amap reqs result)
          else
            ensureLoop e amap reqs
              \<lparr>Instructions = Instructions result @ [createATAInstruction req],
               Balances = (Balances result)(ATAAddr req \<mapsto> 0)\<rparr>
      | None \<Rightarrow>
          ensureLoop e amap reqs
            \<lparr>Instructions = Instructions result @ [createATAInstruction req],
             Balances = (Balances result)(ATAAddr req \<mapsto> 0)\<rparr>)"

definition ensureATABatchWithBalances ::
  "env \<Rightarrow> ataRequest list \<Rightarrow> trace \<Rightarrow> ensureATABatchResult result \<times> trace"
where
  "ensureATABatchWithBalances e requests tr =
     (if length requests = 0 then (Ok \<lparr>Instructions = [], Balances = Map.empty\<rparr>, tr)
      else
        (case deriveATAs e requests of
           Inl err \<Rightarrow> (Err err, tr)
         | Inr reqs \<Rightarrow>
             (case fetchAccountsBatch e (map ATAAddr reqs) tr of
                (Err err, tr1) \<Rightarrow> (Err err, tr1)
              | (Panic, tr1) \<Rightarrow> (Panic, tr1)
              | (Ok amap, tr1) \<Rightarrow>
                  (Ok (ensureLoop e amap reqs \<lparr>Instructions = [], Balances = Map.empty\<rparr>), tr1))))"

definition ensureATABatch ::
  "env \<Rightarrow> ataRequest list \<Rightarrow> trace \<Rightarrow> instruction list result \<times> trace"
where
  "ensureATABatch e requests tr =
     (case ensureATABatchWithBalances e requests tr of
        (Err err, tr1) \<Rightarrow> (Err err, tr1)
      | (Panic, tr1) \<Rightarrow> (Panic, tr1)
      | (Ok r, tr1) \<Rightarrow> (Ok (Instructions r), tr1))"

text \<open>\<open>fetchTokenAmountBatch\<close>: the loop over the asked accounts.\<close>

fun tokenAmountLoop ::
  "env \<Rightarrow> (pubkey \<rightharpoonup> Account) \<Rightarrow> pubkey list \<Rightarrow> (pubkey \<rightharpoonup> u64) \<Rightarrow> (pubkey \<rightharpoonup> u64)"
where
  "tokenAmountLoop e amap [] result = result"
| "tokenAmountLoop e amap (addr # rest) result =
     (case amap addr of
        None \<Rightarrow> tokenAmountLoop e amap rest (result(addr \<mapsto> 0))
      | Some acc \<Rightarrow>
          (case Data acc of
             None \<Rightarrow> tokenAmountLoop e amap rest (result(addr \<mapsto> 0))
           | Some data \<Rightarrow>
               if length data = 0 then tokenAmountLoop e amap rest (result(addr \<mapsto> 0))
               else
                 (case DecodeTokenAccount e data of
                    Inl err \<Rightarrow> tokenAmountLoop e amap rest (result(addr \<mapsto> 0))
                  | Inr amount \<Rightarrow> tokenAmountLoop e amap rest (result(addr \<mapsto> amount)))))"

definition fetchTokenAmountBatch ::
  "env \<Rightarrow> pubkey list \<Rightarrow> trace \<Rightarrow> (pubkey \<rightharpoonup> u64) result \<times> trace"
where
  "fetchTokenAmountBatch e accounts tr =
     (if length accounts = 0 then (Ok Map.empty, tr)
      else
        (case fetchAccountsBatch e accounts tr of
           (Err err, tr1) \<Rightarrow> (Err err, tr1)
         | (Panic, tr1) \<Rightarrow> (Panic, tr1)
         | (Ok amap, tr1) \<Rightarrow> (Ok (tokenAmountLoop e amap accounts Map.empty), tr1)))"

text \<open>\<open>buildWrapWSOL\<close> and \<open>buildCloseAccount\<close>.\<close>

definition buildWrapWSOL :: "pubkey \<Rightarrow> pubkey \<Rightarrow> u64 \<Rightarrow> instruction list" where
  "buildWrapWSOL payer wsolATA lamports =
     (if lamports = 0 then []
      else [SystemTransfer lamports payer wsolATA, SyncNative wsolATA])"

definition buildCloseAccount :: "pubkey \<Rightarrow> pubkey \<Rightarrow> pubkey \<Rightarrow> pubkey \<Rightarrow> instruction" where
  "buildCloseAccount account destination owner tokenProgram =
     Instruction tokenProgram
       [NewAccountMeta account True False,
        NewAccountMeta destination True False,
        NewAccountMeta owner False True]
       [9]"

section \<open>Account resolution for the AMM (\<open>pkg/autofill/pump_amm.go\<close>)\<close>

record ammCoreResult =
  core_Pool :: Pool
  core_GlobalConfig :: GlobalConfig
  core_BaseTokenProgram :: pubkey
  core_QuoteTokenProgram :: pubkey

definition deriveAmmGlobalConfigPDA :: "env \<Rightarrow> error + pubkey" where
  "deriveAmmGlobalConfigPDA e = findGlobalConfig e"

text \<open>
  \<open>fetchAmmCore\<close>: both token programs start as \<open>constants.TokenProgramID\<close>; the
  second batch overwrites each with the owner of the mint account when that account
  is in the batch.
\<close>

definition fetchAmmCore ::
  "env \<Rightarrow> pubkey \<Rightarrow> pubkey \<Rightarrow> trace \<Rightarrow> ammCoreResult result \<times> trace"
where
  "fetchAmmCore e pool globalConfig tr =
     (case fetchAccountsBatch e [pool, globalConfig] tr of
        (Err err, tr1) \<Rightarrow> (Err err, tr1)
      | (Panic, tr1) \<Rightarrow> (Panic, tr1)
      | (Ok amap, tr1) \<Rightarrow>
          (case (case amap pool of None \<Rightarrow> None | Some poolAcc \<Rightarrow> Data poolAcc) of
             None \<Rightarrow> (Err (Errorf ''pool account not found (may be invalid pool address or RPC issue)''), tr1)
           | Some poolData \<Rightarrow>
               (case UnmarshalPool e poolData of
                  Inl err \<Rightarrow> (Err (Wrapf ''decode pool'' err), tr1)
                | Inr poolState \<Rightarrow>
                    (case (case amap globalConfig of None \<Rightarrow> None | Some globalAcc \<Rightarrow> Data globalAcc) of
                       None \<Rightarrow> (Err (Errorf ''global_config account not found''), tr1)
                     | Some globalData \<Rightarrow>
                         (case UnmarshalGlobalConfig e globalData of
                            Inl err \<Rightarrow> (Err (Wrapf ''decode global_config'' err), tr1)
                          | Inr globalState \<Rightarrow>
                              (case fetchAccountsBatch e [BaseMint poolState, QuoteMint poolState] tr1 of
                                 (Err err, tr2) \<Rightarrow> (Err err, tr2)
                               | (Panic, tr2) \<Rightarrow> (Panic, tr2)
                               | (Ok mintMap, tr2) \<Rightarrow>
                                   (Ok \<lparr>core_Pool = poolState,
                                        core_GlobalConfig = globalState,
                                        core_BaseTokenProgram =
                                          (case mintMap (BaseMint poolState) of
                                             Some acc \<Rightarrow> Owner acc
                                           | None \<Rightarrow> TokenProgramID),
                                        core_QuoteTokenProgram =
                                          (case mintMap (QuoteMint poolState) of
                                             Some acc \<Rightarrow> Owner acc
                                           | None \<Rightarrow> TokenProgramID)\<rparr>,
                                    tr2)))))))"

text \<open>
  The tail of \<open>pumpAmmAutofillBuy\<close>: each derived address is stored only when its
  derivation succeeds (\<open>if pk, _, err := ...; err == nil\<close>).
\<close>

definition setIfOk :: "error + pubkey \<Rightarrow> (pubkey \<Rightarrow> 'a \<Rightarrow> 'a) \<Rightarrow> 'a \<Rightarrow> 'a" where
  "setIfOk r upd a = (case r of Inr pk \<Rightarrow> upd pk a | Inl err \<Rightarrow> a)"

definition fillBuyPDAs :: "env \<Rightarrow> pubkey \<Rightarrow> BuyAccounts \<Rightarrow> BuyAccounts" where
  "fillBuyPDAs e coinCreator a0 =
     (let a1 = setIfOk (DeriveBuyEventAuthorityPDA e a0) (\<lambda>pk a. a\<lparr>b_EventAuthority := pk\<rparr>) a0;
          a2 = setIfOk (DeriveBuyGlobalVolumeAccumulatorPDA e a1)
                 (\<lambda>pk a. a\<lparr>b_GlobalVolumeAccumulator := pk\<rparr>) a1;
          a3 = setIfOk (DeriveBuyUserVolumeAccumulatorPDA e a2)
                 (\<lambda>pk a. a\<lparr>b_UserVolumeAccumulator := pk\<rparr>) a2;
          a4 = setIfOk (DeriveBuyFeeConfigPDA e a3) (\<lambda>pk a. a\<lparr>b_FeeConfig := pk\<rparr>) a3;
          a5 = (case findCreatorVaultAuthority e coinCreator of
                  Inl err \<Rightarrow> a4
                | Inr pk \<Rightarrow>
                    (let a' = a4\<lparr>b_CoinCreatorVaultAuthority := pk\<rparr>
                     in setIfOk (DeriveBuyCoinCreatorVaultAtaPDA e a')
                          (\<lambda>pk2 a. a\<lparr>b_CoinCreatorVaultAta := pk2\<rparr>) a'))
      in setIfOk (DeriveBuyProtocolFeeRecipientTokenAccountPDA e a5)
           (\<lambda>pk a. a\<lparr>b_ProtocolFeeRecipientTokenAccount := pk\<rparr>) a5)"

definition pumpAmmAutofillBuy ::
  "env \<Rightarrow> pubkey \<Rightarrow> pubkey \<Rightarrow> trace \<Rightarrow> BuyAccounts result \<times> trace"
where
  "pumpAmmAutofillBuy e user pool tr =
     (case deriveAmmGlobalConfigPDA e of
        Inl err \<Rightarrow> (Err (Wrapf ''derive global_config PDA'' err), tr)
      | Inr globalConfig \<Rightarrow>
          (case fetchAmmCore e pool globalConfig tr of
             (Err err, tr1) \<Rightarrow> (Err (Wrapf ''fetch amm core for pool'' err), tr1)
           | (Panic, tr1) \<Rightarrow> (Panic, tr1)
           | (Ok core, tr1) \<Rightarrow>
               (let protocolRecipient = firstNonZeroPK (ProtocolFeeRecipients (core_GlobalConfig core))
                in if isZeroPK protocolRecipient
                   then (Err (Errorf ''protocol fee recipient not found in global_config for pool''), tr1)
                   else
                     (case findATAWithProgram e user (BaseMint (core_Pool core))
                             (core_BaseTokenProgram core) AssociatedTokenProgramID of
                        Inl err \<Rightarrow> (Err (Wrapf ''derive user base ATA for mint'' err), tr1)
                      | Inr userBaseATA \<Rightarrow>
                          (case findATAWithProgram e user (QuoteMint (core_Pool core))
                                  (core_QuoteTokenProgram core) AssociatedTokenProgramID of
                             Inl err \<Rightarrow> (Err (Wrapf ''derive user quote ATA for mint'' err), tr1)
                           | Inr userQuoteATA \<Rightarrow>
                               (Ok (fillBuyPDAs e (CoinCreator (core_Pool core))
                                      \<lparr>b_Pool = pool,
                                       b_User = user,
                                       b_GlobalConfig = globalConfig,
                                       b_BaseMint = BaseMint (core_Pool core),
                                       b_QuoteMint = QuoteMint (core_Pool core),
                                       b_UserBaseTokenAccount = userBaseATA,
                                       b_UserQuoteTokenAccount = userQuoteATA,
                                       b_PoolBaseTokenAccount = PoolBaseTokenAccount (core_Pool core),
                                       b_PoolQuoteTokenAccount = PoolQuoteTokenAccount (core_Pool core),
                                       b_ProtocolFeeRecipient = protocolRecipient,
                                       b_ProtocolFeeRecipientTokenAccount = 0,
                                       b_BaseTokenProgram = core_BaseTokenProgram core,
                                       b_QuoteTokenProgram = core_QuoteTokenProgram core,
                                       b_SystemProgram = SystemProgramID,
                                       b_AssociatedTokenProgram = AssociatedTokenProgramID,
                                       b_EventAuthority = 0,
                                       b_Program = ProgramKey e,
                                       b_CoinCreatorVaultAta = 0,
                                       b_CoinCreatorVaultAuthority = ProgramKey e,
                                       b_GlobalVolumeAccumulator = 0,
                                       b_UserVolumeAccumulator = 0,
                                       b_FeeConfig = 0,
                                       b_FeeProgram = PumpAmmFeeProgramID\<rparr>),
                                tr1))))))"

definition toBuyExactAccounts :: "BuyAccounts \<Rightarrow> BuyExactQuoteInAccounts" where
  "toBuyExactAccounts a =
     \<lparr>x_Pool = b_Pool a,
      x_User = b_User a,
      x_GlobalConfig = b_GlobalConfig a,
      x_BaseMint = b_BaseMint a,
      x_QuoteMint = b_QuoteMint a,
      x_UserBaseTokenAccount = b_UserBaseTokenAccount a,
      x_UserQuoteTokenAccount = b_UserQuoteTokenAccount a,
      x_PoolBaseTokenAccount = b_PoolBaseTokenAccount a,
      x_PoolQuoteTokenAccount = b_PoolQuoteTokenAccount a,
      x_ProtocolFeeRecipient = b_ProtocolFeeRecipient a,
      x_ProtocolFeeRecipientTokenAccount = b_ProtocolFeeRecipientTokenAccount a,
      x_BaseTokenProgram = b_BaseTokenProgram a,
      x_QuoteTokenProgram = b_QuoteTokenProgram a,
      x_SystemProgram = b_SystemProgram a,
      x_AssociatedTokenProgram = b_AssociatedTokenProgram a,
      x_EventAuthority = b_EventAuthority a,
      x_Program = b_Program a,
      x_CoinCreatorVaultAta = b_CoinCreatorVaultAta a,
      x_CoinCreatorVaultAuthority = b_CoinCreatorVaultAuthority a,
      x_GlobalVolumeAccumulator = b_GlobalVolumeAccumulator a,
      x_UserVolumeAccumulator = b_UserVolumeAccumulator a,
      x_FeeConfig = b_FeeConfig a,
      x_FeeProgram = b_FeeProgram a\<rparr>"

definition isWSOL :: "pubkey \<Rightarrow> pubkey \<Rightarrow> bool" where
  "isWSOL mint tokenProgram = (mint = WSOLMint \<and> tokenProgram = TokenProgramID)"

section \<open>Simulation-based quotes (\<open>pkg/autofill/pump_amm.go\<close>)\<close>

text \<open>\<open>txbuilder.Builder.BuildTransaction\<close>, for a builder whose client is not nil.\<close>

definition BuildTransaction ::
  "env \<Rightarrow> pubkey \<Rightarrow> instruction list \<Rightarrow> trace \<Rightarrow> Transaction result \<times> trace"
where
  "BuildTransaction e feePayer instructions tr =
     (if length instructions = 0 then (Err (Errorf ''requires at least one instruction''), tr)
      else
        (case getLatestBlockhash e tr of
           Inl err \<Rightarrow> (Err (Wrapf ''get latest blockhash'' err), tr @ [GetLatestBlockhash])
         | Inr blockhash \<Rightarrow>
             (case txBuild e feePayer instructions of
                Some err \<Rightarrow> (Err (Wrapf ''build transaction'' err), tr @ [GetLatestBlockhash])
              | None \<Rightarrow>
                  (Ok \<lparr>RecentBlockHash = blockhash, FeePayer = feePayer,
                       TxInstructions = instructions\<rparr>,
                   tr @ [GetLatestBlockhash]))))"

text \<open>
  \<open>types.ParseSimulationError(errVal, logs)\<close> for a non-nil \<open>errVal\<close>: a
  \<open>*ProgramError\<close> or a \<open>*SimulationError\<close>, never nil; kept as one error value.
\<close>

definition ParseSimulationError :: "nat \<Rightarrow> string list \<Rightarrow> error" where
  "ParseSimulationError errVal logs = SimulationFailure errVal logs"

text \<open>
  The checks every simulate function makes on the response before it compares
  balances: response present, no execution error, the first account present with
  data, data not empty. \<open>m1\<close>, \<open>m2\<close> and \<open>m3\<close> are the three messages, which differ
  between the functions.
\<close>

definition simulatedData ::
  "string \<Rightarrow> string \<Rightarrow> string \<Rightarrow> SimulateValue option \<Rightarrow> error + bytes"
where
  "simulatedData m1 m2 m3 res =
     (case res of
        None \<Rightarrow> Inl (Errorf m1)
      | Some v \<Rightarrow>
          (case SimErr v of
             Some errVal \<Rightarrow> Inl (ParseSimulationError errVal (Logs v))
           | None \<Rightarrow>
               (case SimAccounts v of
                  [] \<Rightarrow> Inl (Errorf m2)
                | None # rest \<Rightarrow> Inl (Errorf m2)
                | Some acc # rest \<Rightarrow>
                    (case Data acc of
                       None \<Rightarrow> Inl (Errorf m2)
                     | Some data \<Rightarrow> if length data = 0 then Inl (Errorf m3) else Inr data))))"

definition simulateBaseOut ::
  "env \<Rightarrow> pubkey \<Rightarrow> pubkey \<Rightarrow> u64 \<Rightarrow> instruction list \<Rightarrow> trace \<Rightarrow> u64 result \<times> trace"
where
  "simulateBaseOut e user baseATA initialBase instrs tr =
     (if length instrs = 0 then (Err (Errorf ''no instructions to simulate''), tr)
      else
        (case BuildTransaction e user instrs tr of
           (Err err, tr1) \<Rightarrow> (Err (Wrapf ''build tx for simulate'' err), tr1)
         | (Panic, tr1) \<Rightarrow> (Panic, tr1)
         | (Ok tx, tr1) \<Rightarrow>
             (case simulateTransaction e tr1 tx baseATA of
                Inl err \<Rightarrow> (Err (Wrapf ''simulate tx'' err), tr1 @ [SimulateTransaction tx baseATA])
              | Inr res \<Rightarrow>
                  (case simulatedData ''simulate tx: empty result''
                          ''simulate tx: missing account data'' ''simulate tx: account empty data'' res of
                     Inl err \<Rightarrow> (Err err, tr1 @ [SimulateTransaction tx baseATA])
                   | Inr data \<Rightarrow>
                       (case DecodeTokenAccount e data of
                          Inl err \<Rightarrow>
                            (Err (Wrapf ''simulate tx: decode token account'' err),
                             tr1 @ [SimulateTransaction tx baseATA])
                        | Inr amount \<Rightarrow>
                            if amount < initialBase
                            then (Err (Errorf ''simulate tx: base token decreased''),
                                  tr1 @ [SimulateTransaction tx baseATA])
                            else (Ok (amount - initialBase),
                                  tr1 @ [SimulateTransaction tx baseATA]))))))"

text \<open>\<open>fetchTokenAmount\<close>: one \<open>GetAccountInfo\<close>; a decode failure is an error here.\<close>

definition fetchTokenAmount :: "env \<Rightarrow> pubkey \<Rightarrow> trace \<Rightarrow> u64 result \<times> trace" where
  "fetchTokenAmount e account tr =
     (case getAccountInfo e tr account of
        Inl err \<Rightarrow>
          if mentionsNotFound e err then (Ok 0, tr @ [GetAccountInfo account])
          else (Err (Wrapf ''fetch token account'' err), tr @ [GetAccountInfo account])
      | Inr info \<Rightarrow>
          (case (case info of None \<Rightarrow> None | Some acc \<Rightarrow> Data acc) of
             None \<Rightarrow> (Ok 0, tr @ [GetAccountInfo account])
           | Some data \<Rightarrow>
               if length data = 0 then (Ok 0, tr @ [GetAccountInfo account])
               else
                 (case DecodeTokenAccount e data of
                    Inl err \<Rightarrow> (Err (Wrapf ''decode token account'' err), tr @ [GetAccountInfo account])
                  | Inr amount \<Rightarrow> (Ok amount, tr @ [GetAccountInfo account]))))"

definition simulateAmmQuoteOut ::
  "env \<Rightarrow> pubkey \<Rightarrow> SellAccounts \<Rightarrow> u64 \<Rightarrow> instruction list \<Rightarrow> trace \<Rightarrow> u64 result \<times> trace"
where
  "simulateAmmQuoteOut e user accounts baseIn instrs0 tr =
     (case fetchTokenAmount e (s_UserQuoteTokenAccount accounts) tr of
        (Err err, tr1) \<Rightarrow> (Err err, tr1)
      | (Panic, tr1) \<Rightarrow> (Panic, tr1)
      | (Ok pre, tr1) \<Rightarrow>
          (case (if length instrs0 = 0
                 then (case BuildSellError e accounts \<lparr>BaseAmountIn = baseIn, MinQuoteAmountOut = 0\<rparr> of
                         Some err \<Rightarrow> Inl err
                       | None \<Rightarrow>
                           Inr (instrs0 @ [SellIx accounts \<lparr>BaseAmountIn = baseIn, MinQuoteAmountOut = 0\<rparr>]))
                 else Inr instrs0) of
             Inl err \<Rightarrow> (Err err, tr1)
           | Inr instrs \<Rightarrow>
               (case BuildTransaction e user instrs tr1 of
                  (Err err, tr2) \<Rightarrow> (Err err, tr2)
                | (Panic, tr2) \<Rightarrow> (Panic, tr2)
                | (Ok tx, tr2) \<Rightarrow>
                    (case simulateTransaction e tr2 tx (s_UserQuoteTokenAccount accounts) of
                       Inl err \<Rightarrow>
                         (Err err, tr2 @ [SimulateTransaction tx (s_UserQuoteTokenAccount accounts)])
                     | Inr res \<Rightarrow>
                         (case simulatedData ''simulate result empty response''
                                 ''simulate result empty (quote ATA missing?)''
                                 ''simulate result empty data'' res of
                            Inl err \<Rightarrow>
                              (Err err, tr2 @ [SimulateTransaction tx (s_UserQuoteTokenAccount accounts)])
                          | Inr data \<Rightarrow>
                              (case DecodeTokenAccount e data of
                                 Inl err \<Rightarrow>
                                   (Err err,
                                    tr2 @ [SimulateTransaction tx (s_UserQuoteTokenAccount accounts)])
                               | Inr amount \<Rightarrow>
                                   if amount < pre
                                   then (Err (Errorf ''simulate: quote decreased''),
                                         tr2 @ [SimulateTransaction tx (s_UserQuoteTokenAccount accounts)])
                                   else (Ok (amount - pre),
                                         tr2 @ [SimulateTransaction tx (s_UserQuoteTokenAccount accounts)])))))))"

text \<open>
  \<open>simulateQuoteConsumedNoSign\<close>: the quote consumed is \<open>preBalance - postBalance\<close>;
  a post balance above \<open>preBalance\<close> yields 0 and no error.
\<close>

definition simulateQuoteConsumedNoSign ::
  "env \<Rightarrow> pubkey \<Rightarrow> pubkey \<Rightarrow> u64 \<Rightarrow> instruction list \<Rightarrow> trace \<Rightarrow> u64 result \<times> trace"
where
  "simulateQuoteConsumedNoSign e user quoteATA preBalance instrs tr =
     (case BuildTransaction e user instrs tr of
        (Err err, tr1) \<Rightarrow> (Err err, tr1)
      | (Panic, tr1) \<Rightarrow> (Panic, tr1)
      | (Ok tx, tr1) \<Rightarrow>
          (case simulateTransaction e tr1 tx quoteATA of
             Inl err \<Rightarrow> (Err err, tr1 @ [SimulateTransaction tx quoteATA])
           | Inr res \<Rightarrow>
               (case simulatedData ''simulate result empty response''
                       ''simulate result empty (quote ATA missing?)''
                       ''simulate result empty data'' res of
                  Inl err \<Rightarrow> (Err err, tr1 @ [SimulateTransaction tx quoteATA])
                | Inr data \<Rightarrow>
                    (case DecodeTokenAccount e data of
                       Inl err \<Rightarrow> (Err err, tr1 @ [SimulateTransaction tx quoteATA])
                     | Inr amount \<Rightarrow>
                         if preBalance < amount
                         then (Ok 0, tr1 @ [SimulateTransaction tx quoteATA])
                         else (Ok (preBalance - amount), tr1 @ [SimulateTransaction tx quoteATA])))))"

section \<open>Options and overrides (\<open>pkg/autofill\<close>)\<close>

text \<open>
  \<open>Options\<close>, with the fields the two buy builders read. \<open>Preview\<close> (an
  \<open>io.Writer\<close> that receives a JSON copy of the result) is left out: writing to it
  changes nothing that is returned. \<open>Overrides\<close> is the Go map as a list of pairs.
\<close>

record Options =
  Overrides :: "(string \<times> pubkey) list"
  OptTrackVolume :: bool
  JitoTipLamports :: u64
  JitoTipAccount :: pubkey

type_synonym Option = "Options \<Rightarrow> Options"

definition WithOverrides :: "(string \<times> pubkey) list \<Rightarrow> Option" where
  "WithOverrides m = (\<lambda>opt. opt\<lparr>Overrides := m\<rparr>)"

definition WithTrackVolume :: "bool \<Rightarrow> Option" where
  "WithTrackVolume v = (\<lambda>opt. opt\<lparr>OptTrackVolume := v\<rparr>)"

text \<open>\<open>WithJitoTip\<close>; \<open>randomTip\<close> is the account \<open>jito.GetRandomTipAccountLocal()\<close> draws.\<close>

definition WithJitoTip :: "pubkey \<Rightarrow> u64 \<Rightarrow> Option" where
  "WithJitoTip randomTip tipLamports =
     (\<lambda>opt. (if JitoTipAccount opt = 0
             then opt\<lparr>JitoTipLamports := tipLamports, JitoTipAccount := randomTip\<rparr>
             else opt\<lparr>JitoTipLamports := tipLamports\<rparr>))"

definition WithJitoTipAccount :: "pubkey \<Rightarrow> Option" where
  "WithJitoTipAccount account = (\<lambda>opt. opt\<lparr>JitoTipAccount := account\<rparr>)"

text \<open>\<open>options := &Options{TrackVolume: true}; for _, opt := range opts { opt(options) }\<close>.\<close>

definition buyOptions :: "Option list \<Rightarrow> Options" where
  "buyOptions opts =
     foldl (\<lambda>options opt. opt options)
       \<lparr>Overrides = [], OptTrackVolume = True, JitoTipLamports = 0, JitoTipAccount = 0\<rparr> opts"

text \<open>
  \<open>applyPubkeyOverrides\<close> walks the struct's fields by reflection; a field is set
  when the map has its name, its lower-camel name or its snake-case name (tried in
  that order). Field names are ASCII.
\<close>

definition toLowerChar :: "char \<Rightarrow> char" where
  "toLowerChar c =
     (if of_char c \<ge> (65 :: nat) \<and> of_char c \<le> (90 :: nat)
      then char_of (of_char c + (32 :: nat)) else c)"

definition isUpperChar :: "char \<Rightarrow> bool" where
  "isUpperChar c = (of_char c \<ge> (65 :: nat) \<and> of_char c \<le> (90 :: nat))"

definition lowerCamel :: "string \<Rightarrow> string" where
  "lowerCamel name = (case name of [] \<Rightarrow> [] | c # rest \<Rightarrow> toLowerChar c # rest)"

text \<open>The loop of \<open>snake\<close>: \<open>first\<close> holds at index 0 only.\<close>

fun snakeLoop :: "bool \<Rightarrow> string \<Rightarrow> string list \<Rightarrow> string \<Rightarrow> string list" where
  "snakeLoop first [] parts cur = (if cur \<noteq> [] then parts @ [map toLowerChar cur] else parts)"
| "snakeLoop first (r # rest) parts cur =
     (if \<not> first \<and> isUpperChar r
      then snakeLoop False rest (parts @ [map toLowerChar cur]) [r]
      else snakeLoop False rest parts (cur @ [r]))"

fun joinWith :: "string \<Rightarrow> string list \<Rightarrow> string" where
  "joinWith sep [] = []"
| "joinWith sep [p] = p"
| "joinWith sep (p # q # ps) = p @ sep @ joinWith sep (q # ps)"

definition snake :: "string \<Rightarrow> string" where
  "snake name = joinWith ''_'' (snakeLoop True name [] [])"

definition pickKey :: "string \<Rightarrow> (string \<times> pubkey) list \<Rightarrow> string" where
  "pickKey name m =
     (if map_of m name \<noteq> None then name
      else if map_of m (lowerCamel name) \<noteq> None then lowerCamel name
      else if map_of m (snake name) \<noteq> None then snake name
      else [])"

definition overrideField :: "(string \<times> pubkey) list \<Rightarrow> string \<Rightarrow> pubkey \<Rightarrow> pubkey" where
  "overrideField m name old =
     (let key = pickKey name m
      in if key = [] then old
         else (case map_of m key of Some pk \<Rightarrow> pk | None \<Rightarrow> old))"

definition applyOverrides ::
  "BuyExactQuoteInAccounts \<Rightarrow> (string \<times> pubkey) list \<Rightarrow> BuyExactQuoteInAccounts"
where
  "applyOverrides a m =
     (if length m = 0 then a
      else
        \<lparr>x_Pool = overrideField m ''Pool'' (x_Pool a),
         x_User = overrideField m ''User'' (x_User a),
         x_GlobalConfig = overrideField m ''GlobalConfig'' (x_GlobalConfig a),
         x_BaseMint = overrideField m ''BaseMint'' (x_BaseMint a),
         x_QuoteMint = overrideField m ''QuoteMint'' (x_QuoteMint a),
         x_UserBaseTokenAccount = overrideField m ''UserBaseTokenAccount'' (x_UserBaseTokenAccount a),
         x_UserQuoteTokenAccount = overrideField m ''UserQuoteTokenAccount'' (x_UserQuoteTokenAccount a),
         x_PoolBaseTokenAccount = overrideField m ''PoolBaseTokenAccount'' (x_PoolBaseTokenAccount a),
         x_PoolQuoteTokenAccount = overrideField m ''PoolQuoteTokenAccount'' (x_PoolQuoteTokenAccount a),
         x_ProtocolFeeRecipient = overrideField m ''ProtocolFeeRecipient'' (x_ProtocolFeeRecipient a),
         x_ProtocolFeeRecipientTokenAccount =
           overrideField m ''ProtocolFeeRecipientTokenAccount'' (x_ProtocolFeeRecipientTokenAccount a),
         x_BaseTokenProgram = overrideField m ''BaseTokenProgram'' (x_BaseTokenProgram a),
         x_QuoteTokenProgram = overrideField m ''QuoteTokenProgram'' (x_QuoteTokenProgram a),
         x_SystemProgram = overrideField m ''SystemProgram'' (x_SystemProgram a),
         x_AssociatedTokenProgram =
           overrideField m ''AssociatedTokenProgram'' (x_AssociatedTokenProgram a),
         x_EventAuthority = overrideField m ''EventAuthority'' (x_EventAuthority a),
         x_Program = overrideField m ''Program'' (x_Program a),
         x_CoinCreatorVaultAta = overrideField m ''CoinCreatorVaultAta'' (x_CoinCreatorVaultAta a),
         x_CoinCreatorVaultAuthority =
           overrideField m ''CoinCreatorVaultAuthority'' (x_CoinCreatorVaultAuthority a),
         x_GlobalVolumeAccumulator =
           overrideField m ''GlobalVolumeAccumulator'' (x_GlobalVolumeAccumulator a),
         x_UserVolumeAccumulator = overrideField m ''UserVolumeAccumulator'' (x_UserVolumeAccumulator a),
         x_FeeConfig = overrideField m ''FeeConfig'' (x_FeeConfig a),
         x_FeeProgram = overrideField m ''FeeProgram'' (x_FeeProgram a)\<rparr>)"

section \<open>The buy builders (\<open>pkg/autofill/pump_amm.go\<close>)\<close>

definition ValidatePublicKey :: "string \<Rightarrow> pubkey \<Rightarrow> error option" where
  "ValidatePublicKey name key =
     (if key = 0 then Some (ValidationError name ''cannot be zero'') else None)"

definition ValidateSlippage :: "u64 \<Rightarrow> error option" where
  "ValidateSlippage slippageBps =
     (if slippageBps > 10000 then Some (ValidationError ''slippageBps'' ''must be <= 10000 (100%)'')
      else None)"

definition appendJitoTip :: "instruction list \<Rightarrow> pubkey \<Rightarrow> Options \<Rightarrow> instruction list" where
  "appendJitoTip instrs from options =
     (if JitoTipLamports options = 0 then instrs
      else if JitoTipAccount options = 0 then instrs
      else instrs @ [SystemTransfer (JitoTipLamports options) from (JitoTipAccount options)])"

text \<open>The four requests both builders make.\<close>

definition buyATARequests :: "BuyExactQuoteInAccounts \<Rightarrow> ataRequest list" where
  "buyATARequests a =
     [\<lparr>Payer = x_User a, Wallet = x_User a, Mint = x_BaseMint a,
       TokenProgram = x_BaseTokenProgram a, ATAProgram = AssociatedTokenProgramID, ATAAddr = 0\<rparr>,
      \<lparr>Payer = x_User a, Wallet = x_User a, Mint = x_QuoteMint a,
       TokenProgram = x_QuoteTokenProgram a, ATAProgram = AssociatedTokenProgramID, ATAAddr = 0\<rparr>,
      \<lparr>Payer = x_User a, Wallet = x_ProtocolFeeRecipient a, Mint = x_QuoteMint a,
       TokenProgram = x_QuoteTokenProgram a, ATAProgram = AssociatedTokenProgramID, ATAAddr = 0\<rparr>,
      \<lparr>Payer = x_User a, Wallet = x_CoinCreatorVaultAuthority a, Mint = x_QuoteMint a,
       TokenProgram = x_QuoteTokenProgram a, ATAProgram = AssociatedTokenProgramID, ATAAddr = 0\<rparr>]"

text \<open>A Go map read: the zero value for a missing key.\<close>

definition balanceOf :: "(pubkey \<rightharpoonup> u64) \<Rightarrow> pubkey \<Rightarrow> u64" where
  "balanceOf m k = (case m k of Some v \<Rightarrow> v | None \<Rightarrow> 0)"

text \<open>The instructions after the swap: unwrap when the base mint is WSOL, then the tip.\<close>

definition buyTail ::
  "BuyExactQuoteInAccounts \<Rightarrow> pubkey \<Rightarrow> Options \<Rightarrow> instruction list \<Rightarrow> instruction list"
where
  "buyTail a user options instrs =
     appendJitoTip
       (if x_BaseMint a = WSOLMint
        then instrs @ [buildCloseAccount (x_UserBaseTokenAccount a) (x_User a) (x_User a)
                         (x_BaseTokenProgram a)]
        else instrs)
       user options"

definition PumpAmmBuyWithSol ::
  "env option \<Rightarrow> pubkey \<Rightarrow> pubkey \<Rightarrow> u64 \<Rightarrow> u64 \<Rightarrow> Option list \<Rightarrow> trace
   \<Rightarrow> (BuyExactQuoteInAccounts \<times> BuyExactQuoteInArgs \<times> instruction list \<times> u64) result \<times> trace"
where
  "PumpAmmBuyWithSol rpc user pool quoteLamports slippageBps opts tr =
     (case rpc of
        None \<Rightarrow> (Err ErrNilRPC, tr)
      | Some e \<Rightarrow>
     (case ValidatePublicKey ''user'' user of
        Some err \<Rightarrow> (Err err, tr)
      | None \<Rightarrow>
     (case ValidatePublicKey ''pool'' pool of
        Some err \<Rightarrow> (Err err, tr)
      | None \<Rightarrow>
     if quoteLamports = 0
     then (Err (ValidationError ''quoteLamports'' ''must be greater than 0''), tr)
     else
     (case ValidateSlippage slippageBps of
        Some err \<Rightarrow> (Err err, tr)
      | None \<Rightarrow>
     (let options = buyOptions opts in
     (case pumpAmmAutofillBuy e user pool tr of
        (Err err, tr1) \<Rightarrow> (Err err, tr1)
      | (Panic, tr1) \<Rightarrow> (Panic, tr1)
      | (Ok buyAccts, tr1) \<Rightarrow>
     (let exactAccts = applyOverrides (toBuyExactAccounts buyAccts) (Overrides options) in
     (case ensureATABatchWithBalances e (buyATARequests exactAccts) tr1 of
        (Err err, tr2) \<Rightarrow> (Err err, tr2)
      | (Panic, tr2) \<Rightarrow> (Panic, tr2)
      | (Ok ataResult, tr2) \<Rightarrow>
     (let existingQuote = balanceOf (Balances ataResult) (x_UserQuoteTokenAccount exactAccts);
          initialBase = balanceOf (Balances ataResult) (x_UserBaseTokenAccount exactAccts);
          instrs =
            (if isWSOL (x_QuoteMint exactAccts) (x_QuoteTokenProgram exactAccts)
                \<and> quoteLamports > existingQuote
             then Instructions ataResult
                    @ buildWrapWSOL (x_User exactAccts) (x_UserQuoteTokenAccount exactAccts)
                        (quoteLamports - existingQuote)
             else Instructions ataResult);
          simArgs = \<lparr>SpendableQuoteIn = quoteLamports, MinBaseAmountOut = 1,
                     TrackVolume = OptTrackVolume options\<rparr>
      in
     (case BuildBuyExactQuoteInError e exactAccts simArgs of
        Some err \<Rightarrow> (Err err, tr2)
      | None \<Rightarrow>
     (case simulateBaseOut e user (x_UserBaseTokenAccount exactAccts) initialBase
             (instrs @ [BuyExactQuoteInIx exactAccts simArgs]) tr2 of
        (Err err, tr3) \<Rightarrow> (Err err, tr3)
      | (Panic, tr3) \<Rightarrow> (Panic, tr3)
      | (Ok baseOutSim, tr3) \<Rightarrow>
     (let minBaseOut = applySlippage baseOutSim slippageBps;
          finalArgs = \<lparr>SpendableQuoteIn = quoteLamports, MinBaseAmountOut = minBaseOut,
                       TrackVolume = OptTrackVolume options\<rparr>
      in
     (case BuildBuyExactQuoteInError e exactAccts finalArgs of
        Some err \<Rightarrow> (Err err, tr3)
      | None \<Rightarrow>
          (Ok (exactAccts, finalArgs,
               buyTail exactAccts user options (instrs @ [BuyExactQuoteInIx exactAccts finalArgs]),
               baseOutSim),
           tr3))))))))))))))"

definition PumpAmmBuyExactQuoteIn ::
  "env option \<Rightarrow> pubkey \<Rightarrow> pubkey \<Rightarrow> u64 \<Rightarrow> u64 \<Rightarrow> Option list \<Rightarrow> trace
   \<Rightarrow> (BuyExactQuoteInAccounts \<times> BuyExactQuoteInArgs \<times> instruction list) result \<times> trace"
where
  "PumpAmmBuyExactQuoteIn rpc user pool quoteLamports minBaseOut opts tr =
     (case rpc of
        None \<Rightarrow> (Err ErrNilRPC, tr)
      | Some e \<Rightarrow>
     (case ValidatePublicKey ''user'' user of
        Some err \<Rightarrow> (Err err, tr)
      | None \<Rightarrow>
     (case ValidatePublicKey ''pool'' pool of
        Some err \<Rightarrow> (Err err, tr)
      | None \<Rightarrow>
     if quoteLamports = 0
     then (Err (ValidationError ''quoteLamports'' ''must be greater than 0''), tr)
     else
     (let options = buyOptions opts in
     (case pumpAmmAutofillBuy e user pool tr of
        (Err err, tr1) \<Rightarrow> (Err err, tr1)
      | (Panic, tr1) \<Rightarrow> (Panic, tr1)
      | (Ok buyAccts, tr1) \<Rightarrow>
     (let exactAccts = applyOverrides (toBuyExactAccounts buyAccts) (Overrides options) in
     (case ensureATABatchWithBalances e (buyATARequests exactAccts) tr1 of
        (Err err, tr2) \<Rightarrow> (Err err, tr2)
      | (Panic, tr2) \<Rightarrow> (Panic, tr2)
      | (Ok ataResult, tr2) \<Rightarrow>
     (let instrs =
            (if isWSOL (x_QuoteMint exactAccts) (x_QuoteTokenProgram exactAccts) \<and> quoteLamports > 0
             then
               (let existing = balanceOf (Balances ataResult) (x_UserQuoteTokenAccount exactAccts)
                in if quoteLamports > existing
                   then Instructions ataResult
                          @ buildWrapWSOL (x_User exactAccts) (x_UserQuoteTokenAccount exactAccts)
                              (quoteLamports - existing)
                   else Instructions ataResult)
             else Instructions ataResult);
          args = \<lparr>SpendableQuoteIn = quoteLamports, MinBaseAmountOut = minBaseOut,
                  TrackVolume = OptTrackVolume options\<rparr>
      in
     (case BuildBuyExactQuoteInError e exactAccts args of
        Some err \<Rightarrow> (Err err, tr2)
      | None \<Rightarrow>
          (Ok (exactAccts, args,
               buyTail exactAccts user options (instrs @ [BuyExactQuoteInIx exactAccts args])),
           tr2))))))))))"

section \<open>A sample world\<close>

text \<open>
  A pool (address 100) that trades mint 300, a Token-2022 mint, against wrapped SOL;
  the global config is at 200, its second fee recipient is 500. The trader (address 7)
  holds a wrapped-SOL account with 4000000 lamports and no account for mint 300 yet.
  A simulation leaves 950000 units in the trader's base account.
\<close>

definition sampleATA :: "pubkey \<Rightarrow> pubkey \<Rightarrow> pubkey \<Rightarrow> pubkey \<Rightarrow> pubkey" where
  "sampleATA wallet mint tokenProgram ataProgram = wallet + 2 * mint + 3 * tokenProgram + 5"

definition sampleChain :: "pubkey \<Rightarrow> Account option" where
  "sampleChain k =
     (if k = 100 then Some \<lparr>Lamports = 1, Owner = PumpAmmProgramID, Data = Some [1]\<rparr>
      else if k = 200 then Some \<lparr>Lamports = 1, Owner = PumpAmmProgramID, Data = Some [2]\<rparr>
      else if k = 300 then Some \<lparr>Lamports = 1, Owner = Token2022ProgramID, Data = Some [4]\<rparr>
      else if k = WSOLMint then Some \<lparr>Lamports = 1, Owner = TokenProgramID, Data = Some [4]\<rparr>
      else if k = sampleATA 7 WSOLMint TokenProgramID AssociatedTokenProgramID
      then Some \<lparr>Lamports = 4000000, Owner = TokenProgramID, Data = Some [3]\<rparr>
      else None)"

text \<open>A node that answers from a fixed chain state, with the sample library functions.\<close>

definition worldEnv :: "(pubkey \<Rightarrow> Account option) \<Rightarrow> env" where
  "worldEnv chain =
     \<lparr>getMultipleAccounts = (\<lambda>tr addrs. Inr (map chain addrs)),
      getAccountInfo = (\<lambda>tr addr. Inr (chain addr)),
      getLatestBlockhash = (\<lambda>tr. Inr 1),
      simulateTransaction = (\<lambda>tr tx addr.
         Inr (Some \<lparr>SimErr = None, Logs = [],
                     SimAccounts = [Some \<lparr>Lamports = 1, Owner = Token2022ProgramID,
                                           Data = Some [5]\<rparr>]\<rparr>)),
      mentionsNotFound = (\<lambda>err. False),
      txBuild = (\<lambda>payer instrs. None),
      findATA = (\<lambda>wallet mint tokenProgram ataProgram.
         Inr (sampleATA wallet mint tokenProgram ataProgram)),
      ProgramKey = PumpAmmProgramID,
      findGlobalConfig = Inr 200,
      findCreatorVaultAuthority = (\<lambda>creator. Inr (creator + 1)),
      DeriveBuyEventAuthorityPDA = (\<lambda>a. Inr 601),
      DeriveBuyGlobalVolumeAccumulatorPDA = (\<lambda>a. Inr 602),
      DeriveBuyUserVolumeAccumulatorPDA = (\<lambda>a. Inr 603),
      DeriveBuyFeeConfigPDA = (\<lambda>a. Inr 604),
      DeriveBuyCoinCreatorVaultAtaPDA = (\<lambda>a. Inr 605),
      DeriveBuyProtocolFeeRecipientTokenAccountPDA = (\<lambda>a. Inr 606),
      UnmarshalPool = (\<lambda>data.
         if data = [1]
         then Inr \<lparr>BaseMint = 300, QuoteMint = WSOLMint, PoolBaseTokenAccount = 301,
                   PoolQuoteTokenAccount = 302, CoinCreator = 400\<rparr>
         else Inl (Errorf ''unexpected discriminator'')),
      UnmarshalGlobalConfig = (\<lambda>data.
         if data = [2] then Inr \<lparr>ProtocolFeeRecipients = [0, 500]\<rparr>
         else Inl (Errorf ''unexpected discriminator'')),
      DecodeTokenAccount = (\<lambda>data.
         if data = [3] then Inr 4000000
         else if data = [5] then Inr 950000
         else Inl (Errorf ''unexpected EOF'')),
      BuildBuyExactQuoteInError = (\<lambda>a args. None),
      BuildSellError = (\<lambda>a args. None)\<rparr>"

definition sampleEnv :: env where
  "sampleEnv = worldEnv sampleChain"

text \<open>
  Variants of the chain state: the trader's wrapped-SOL address holds a plain
  system-owned account (lamports were sent to it before any token account was
  created); the account's data does not decode; the base mint account is missing.
\<close>

definition systemOwnedChain :: "pubkey \<Rightarrow> Account option" where
  "systemOwnedChain k =
     (if k = sampleATA 7 WSOLMint TokenProgramID AssociatedTokenProgramID
      then Some \<lparr>Lamports = 890880, Owner = SystemProgramID, Data = Some []\<rparr>
      else sampleChain k)"

definition garbledChain :: "pubkey \<Rightarrow> Account option" where
  "garbledChain k =
     (if k = sampleATA 7 WSOLMint TokenProgramID AssociatedTokenProgramID
      then Some \<lparr>Lamports = 4000000, Owner = TokenProgramID, Data = Some [9, 9]\<rparr>
      else sampleChain k)"

definition noMintChain :: "pubkey \<Rightarrow> Account option" where
  "noMintChain k = (if k = 300 then None else sampleChain k)"

definition sampleRequest :: ataRequest where
  "sampleRequest =
     \<lparr>Payer = 7, Wallet = 7, Mint = WSOLMint, TokenProgram = TokenProgramID,
      ATAProgram = AssociatedTokenProgramID, ATAAddr = 0\<rparr>"

definition sampleQuoteATA :: pubkey where
  "sampleQuoteATA = sampleATA 7 WSOLMint TokenProgramID AssociatedTokenProgramID"


definition sampleBaseATA :: pubkey where
  "sampleBaseATA = sampleATA 7 300 Token2022ProgramID AssociatedTokenProgramID"

definition sampleBaseRequest :: ataRequest where
  "sampleBaseRequest =
     \<lparr>Payer = 7, Wallet = 7, Mint = 300, TokenProgram = Token2022ProgramID,
      ATAProgram = AssociatedTokenProgramID, ATAAddr = 0\<rparr>"
section \<open>Slippage: the defect\<close>

lemma applySlippage_no_overflow:
  assumes "slippageBps \<le> 10000" and "unat amount * (10000 - unat slippageBps) < 2 ^ 64"
  shows "unat (applySlippage amount slippageBps) = unat amount * (10000 - unat slippageBps) div 10000"
proof (cases "slippageBps = 10000")
  case True
  then show ?thesis by (simp add: applySlippage_def)
next
  case False
  with assms(1) have lt: "slippageBps < 10000" by simp
  then have s: "unat slippageBps < 10000" by (simp add: word_less_nat_alt)
  have sub: "unat (10000 - slippageBps) = 10000 - unat slippageBps"
    using lt by (simp add: unat_sub word_le_nat_alt word_less_nat_alt)
  have mul: "unat (amount * (10000 - slippageBps)) = unat amount * (10000 - unat slippageBps)"
    using assms(2) by (simp add: unat_word_ariths sub)
  show ?thesis
    using lt by (simp add: applySlippage_def unat_div mul not_le[symmetric])
qed

text \<open>
  C1. The claim: for every \<open>uint64\<close> amount and every \<open>slippageBps\<close> in [0, 10000],
  \<open>applySlippage\<close> is \<open>floor(amount * (10000 - slippageBps) / 10000)\<close> over unbounded
  integers. The product is taken in 64 bits: at amount \<open>2 * 10^15\<close> and 100 basis points
  the product \<open>1.98 * 10^19\<close> wraps, and the function returns 135325592629044 where
  the unbounded value is 1980000000000000.
\<close>

theorem applySlippage_wraps:
  "unat (applySlippage 2000000000000000 100) = 135325592629044
   \<and> (2000000000000000 * (10000 - 100)) div 10000 = (1980000000000000 :: nat)"
  by (simp add: applySlippage_def)


section \<open>The retry loop\<close>

lemma call_loop_step:
  assumes "i < attempts - 1" and "fn env i = Some e" and "retryable (Some e)"
    and "ctxDone env i = None" and "backoff cfg (rnd env) (int i) \<noteq> Panicked"
  shows "call_loop cfg env opn attempts i err = call_loop cfg env opn attempts (Suc i) (Some e)"
proof -
  from assms(5) obtain d where "backoff cfg (rnd env) (int i) = Returned d"
    by (cases "backoff cfg (rnd env) (int i)") auto
  with assms(1-4) show ?thesis
    by (subst call_loop.simps) (auto simp del: retryable.simps)
qed

lemma call_loop_success:
  assumes "N \<le> attempts" and "fn env (N - 1) = None" and "i \<le> N - 1" and "1 \<le> N"
    and "\<forall>k. i \<le> k \<and> k < N - 1 \<longrightarrow>
           (\<exists>e. fn env k = Some e \<and> retryable (Some e)) \<and> ctxDone env k = None
           \<and> backoff cfg (rnd env) (int k) \<noteq> Panicked"
  shows "call_loop cfg env opn attempts i err = (Returned None, N)"
  using assms
proof (induction "N - 1 - i" arbitrary: i err)
  case 0
  then have "i = N - 1" by simp
  with 0 show ?case
    by (subst call_loop.simps) auto
next
  case (Suc d)
  then have lt: "i < N - 1" by simp
  with Suc.prems obtain e where e: "fn env i = Some e" "retryable (Some e)"
    and c: "ctxDone env i = None" and b: "backoff cfg (rnd env) (int i) \<noteq> Panicked"
    by (metis le_refl)
  have step: "call_loop cfg env opn attempts i err
                = call_loop cfg env opn attempts (Suc i) (Some e)"
    using lt Suc.prems(1) e c b by (intro call_loop_step) auto
  have "call_loop cfg env opn attempts (Suc i) (Some e) = (Returned None, N)"
    using Suc.hyps(2) Suc.prems lt
    by (intro Suc.hyps(1)) auto
  with step show ?case by simp
qed

lemma call_loop_exhausted:
  assumes "i < attempts"
    and "\<forall>k. i \<le> k \<and> k < attempts \<longrightarrow> (\<exists>e. fn env k = Some e \<and> retryable (Some e))"
    and "\<forall>k. i \<le> k \<and> k < attempts - 1 \<longrightarrow> ctxDone env k = None
           \<and> backoff cfg (rnd env) (int k) \<noteq> Panicked"
  shows "call_loop cfg env opn attempts i err
           = (Returned (Some (CallFailed opn (int attempts) (fn env (attempts - 1)))), attempts)"
  using assms
proof (induction "attempts - 1 - i" arbitrary: i err)
  case 0
  then have i: "i = attempts - 1" by auto
  from 0 obtain e where e: "fn env i = Some e" by (metis le_refl)
  with 0 i show ?case
    by (subst call_loop.simps) (auto simp del: retryable.simps)
next
  case (Suc d)
  then have lt: "i < attempts - 1" by simp
  then have lt': "i < attempts" by simp
  from Suc.prems(2) lt' obtain e where e: "fn env i = Some e" "retryable (Some e)"
    by (metis le_refl)
  from Suc.prems(3) lt have c: "ctxDone env i = None"
    and b: "backoff cfg (rnd env) (int i) \<noteq> Panicked"
    by auto
  have step: "call_loop cfg env opn attempts i err
                = call_loop cfg env opn attempts (Suc i) (Some e)"
    using lt e c b by (intro call_loop_step) auto
  have "call_loop cfg env opn attempts (Suc i) (Some e)
          = (Returned (Some (CallFailed opn (int attempts) (fn env (attempts - 1)))), attempts)"
    using Suc.hyps(2) Suc.prems lt
    by (intro Suc.hyps(1)) auto
  with step show ?case by simp
qed

lemma call_loop_not_retryable:
  assumes "1 \<le> attempts" and "fn env 0 = Some e" and "\<not> retryable (Some e)"
  shows "call_loop cfg env opn attempts 0 err
           = (Returned (Some (CallFailed opn (int attempts) (Some e))), 1)"
  using assms by (subst call_loop.simps) (auto simp del: retryable.simps)

text \<open>
  C3, as stated: with retry enabled and \<open>maxAttempts = M\<close>, a closure that fails once
  with a retryable error and then succeeds makes \<open>call\<close> invoke it twice and return
  success when \<open>2 \<le> M\<close>. It does not when the context's deadline passes during the
  backoff wait: the \<open>select\<close> takes \<open>ctx.Done()\<close>, and \<open>call\<close> returns
  \<open>ctx.Err()\<close> after one invocation.
\<close>

theorem call_retry_counterexample:
  "Enabled defaultRetry \<and> MaxAttempts defaultRetry = 3
   \<and> fn run_deadline 0 = Some (Transport 0) \<and> retryable (Some (Transport 0))
   \<and> fn run_deadline 1 = None
   \<and> call defaultRetry run_deadline ''getLatestBlockhash'' = (Returned (Some DeadlineExceeded), 1)"
  by (simp add: call_def defaultRetry_def run_deadline_def call_loop.simps backoff_def
        go_div_def wrap_int64_def)

text \<open>
  C3, amended. Let retry be enabled, let the rate limiter admit the call, and let
  \<open>M\<close> be the attempt count in force (\<open>MaxAttempts\<close>, or 1 when that is not positive).
  (1) If the closure fails with retryable errors \<open>N - 1\<close> times and then succeeds,
  with \<open>1 \<le> N \<le> M\<close>, and during each of the \<open>N - 1\<close> backoff waits the context is
  not done and the backoff computation does not panic, then \<open>call\<close> returns success
  after exactly \<open>N\<close> invocations.
  (2) If the closure fails with retryable errors on all \<open>M\<close> attempts (the waits as
  before), \<open>call\<close> returns the error of the last attempt wrapped with the operation
  name and the count \<open>M\<close>, after exactly \<open>M\<close> invocations.
  (3) If the first invocation fails with an error that is or wraps \<open>context.Canceled\<close>
  or \<open>context.DeadlineExceeded\<close>, the closure is invoked exactly once and the wrapped
  error is returned.
\<close>

theorem call_retry:
  assumes "Enabled cfg"
    and "limiterWait env = None \<or> limiterWait env = Some None"
    and "M = (if MaxAttempts cfg \<le> 0 then 1 else nat (MaxAttempts cfg))"
  shows "(1 \<le> N \<and> N \<le> M \<and> fn env (N - 1) = None
          \<and> (\<forall>k<N - 1. (\<exists>e. fn env k = Some e \<and> retryable (Some e)) \<and> ctxDone env k = None
                \<and> backoff cfg (rnd env) (int k) \<noteq> Panicked)
          \<longrightarrow> call cfg env opn = (Returned None, N))
     \<and> ((\<forall>k<M. \<exists>e. fn env k = Some e \<and> retryable (Some e))
          \<and> (\<forall>k<M - 1. ctxDone env k = None \<and> backoff cfg (rnd env) (int k) \<noteq> Panicked)
          \<longrightarrow> call cfg env opn
                = (Returned (Some (CallFailed opn (int M) (fn env (M - 1)))), M))
     \<and> (\<forall>e. fn env 0 = Some e \<and> \<not> retryable (Some e)
          \<longrightarrow> call cfg env opn = (Returned (Some (CallFailed opn (int M) (Some e))), 1))"
proof -
  have M1: "1 \<le> M" using assms(3) by auto
  have unfold: "call cfg env opn = call_loop cfg env opn M 0 None"
    using assms by (auto simp: call_def)
  have a: "call cfg env opn = (Returned None, N)"
    if "1 \<le> N" "N \<le> M" "fn env (N - 1) = None"
       "\<forall>k<N - 1. (\<exists>e. fn env k = Some e \<and> retryable (Some e)) \<and> ctxDone env k = None
                \<and> backoff cfg (rnd env) (int k) \<noteq> Panicked"
    unfolding unfold using that by (intro call_loop_success) auto
  have b: "call cfg env opn = (Returned (Some (CallFailed opn (int M) (fn env (M - 1)))), M)"
    if "\<forall>k<M. \<exists>e. fn env k = Some e \<and> retryable (Some e)"
       "\<forall>k<M - 1. ctxDone env k = None \<and> backoff cfg (rnd env) (int k) \<noteq> Panicked"
    unfolding unfold using that M1 by (intro call_loop_exhausted) auto
  have c: "call cfg env opn = (Returned (Some (CallFailed opn (int M) (Some e))), 1)"
    if "fn env 0 = Some e" "\<not> retryable (Some e)" for e
    unfolding unfold using that M1 by (intro call_loop_not_retryable) auto
  from a b c show ?thesis by blast
qed

theorem call_retry_witness:
  "call defaultRetry run_second_ok ''sendTransaction'' = (Returned None, 2)
   \<and> call defaultRetry run_all_fail ''sendTransaction''
       = (Returned (Some (CallFailed ''sendTransaction'' 3 (Some (Transport 2)))), 3)
   \<and> call defaultRetry run_cancelled ''sendTransaction''
       = (Returned (Some (CallFailed ''sendTransaction'' 3 (Some (Wrapf ''rpc call'' Canceled)))), 1)"
proof -
  have bk: "backoff defaultRetry (\<lambda>n. 0) (int k) \<noteq> Panicked" if "k < 2" for k
  proof -
    from that have "k = 0 \<or> k = 1" by auto
    then show ?thesis
      by (auto simp: backoff_def defaultRetry_def go_div_def wrap_int64_def)
  qed
  have 1: "call defaultRetry run_second_ok ''sendTransaction'' = (Returned None, 2)"
    using call_retry [of defaultRetry run_second_ok 3 2 "''sendTransaction''"] bk [of 0]
    by (simp add: defaultRetry_def run_second_ok_def)
  have 2: "call defaultRetry run_all_fail ''sendTransaction''
             = (Returned (Some (CallFailed ''sendTransaction'' 3 (Some (Transport 2)))), 3)"
    using call_retry [of defaultRetry run_all_fail 3 0 "''sendTransaction''"] bk
    by (simp add: defaultRetry_def run_all_fail_def)
  have 3: "call defaultRetry run_cancelled ''sendTransaction''
             = (Returned (Some (CallFailed ''sendTransaction'' 3
                  (Some (Wrapf ''rpc call'' Canceled)))), 1)"
    using call_retry [of defaultRetry run_cancelled 3 0 "''sendTransaction''"]
    by (simp add: defaultRetry_def run_cancelled_def)
  from 1 2 3 show ?thesis by simp
qed

section \<open>The batched fetch\<close>

lemma collectAccounts_chain:
  "collectAccounts ks (map chain ks) out
     = Ok (\<lambda>k. if k \<in> set ks \<and> chain k \<noteq> None then chain k else out k)"
proof (induction ks arbitrary: out)
  case Nil
  then show ?case by simp
next
  case (Cons a ks)
  show ?case
  proof (cases "chain a")
    case None
    have "collectAccounts (a # ks) (map chain (a # ks)) out = collectAccounts ks (map chain ks) out"
      using None by simp
    also have "\<dots> = Ok (\<lambda>k. if k \<in> set ks \<and> chain k \<noteq> None then chain k else out k)"
      by (rule Cons.IH)
    also have "(\<lambda>k. if k \<in> set ks \<and> chain k \<noteq> None then chain k else out k)
                 = (\<lambda>k. if k \<in> set (a # ks) \<and> chain k \<noteq> None then chain k else out k)"
      using None by (intro ext) auto
    finally show ?thesis .
  next
    case (Some v)
    have "collectAccounts (a # ks) (map chain (a # ks)) out
            = collectAccounts ks (map chain ks) (out(a \<mapsto> v))"
      using Some by simp
    also have "\<dots> = Ok (\<lambda>k. if k \<in> set ks \<and> chain k \<noteq> None then chain k else (out(a \<mapsto> v)) k)"
      by (rule Cons.IH)
    also have "(\<lambda>k. if k \<in> set ks \<and> chain k \<noteq> None then chain k else (out(a \<mapsto> v)) k)
                 = (\<lambda>k. if k \<in> set (a # ks) \<and> chain k \<noteq> None then chain k else out k)"
      using Some by (intro ext) auto
    finally show ?thesis .
  qed
qed

lemma fetchAccountsBatch_chain:
  assumes "getMultipleAccounts e tr addrs = Inr (map chain addrs)"
  shows "fetchAccountsBatch e addrs tr
           = (Ok (\<lambda>k. if k \<in> set addrs then chain k else None),
              if addrs = [] then tr else tr @ [GetMultipleAccounts addrs])"
proof -
  have "(\<lambda>k. if k \<in> set addrs \<and> chain k \<noteq> None then chain k else None)
          = (\<lambda>k. if k \<in> set addrs then chain k else None)"
    by (intro ext) auto
  with assms show ?thesis
    by (auto simp: fetchAccountsBatch_def collectAccounts_chain)
qed

text \<open>
  C8. With no address \<open>fetchAccountsBatch\<close> returns the empty map and sends nothing;
  with at least one address it sends exactly one \<open>GetMultipleAccounts\<close> request, for
  all the addresses at once, whatever their number and whatever the answer; and when
  the node answers from a chain state, the returned map holds exactly the asked
  addresses that have an account there: an address with no account is absent, and the
  call succeeds.
\<close>

theorem fetchAccountsBatch_single_call:
  "fetchAccountsBatch e [] tr = (Ok Map.empty, tr)
   \<and> (addrs \<noteq> [] \<longrightarrow> snd (fetchAccountsBatch e addrs tr) = tr @ [GetMultipleAccounts addrs])
   \<and> (addrs \<noteq> [] \<and> getMultipleAccounts e tr addrs = Inr (map chain addrs)
        \<longrightarrow> fst (fetchAccountsBatch e addrs tr) = Ok (\<lambda>k. if k \<in> set addrs then chain k else None))"
proof -
  have "(\<lambda>k. if k \<in> set addrs \<and> chain k \<noteq> None then chain k else None)
          = (\<lambda>k. if k \<in> set addrs then chain k else None)"
    by (intro ext) auto
  then show ?thesis
    by (auto simp: fetchAccountsBatch_def collectAccounts_chain split: sum.splits)
qed

theorem fetchAccountsBatch_single_call_witness:
  "fst (fetchAccountsBatch sampleEnv [100, 5, 200] [])
     = Ok (\<lambda>k. if k \<in> set [100, 5, 200] then sampleChain k else None)
   \<and> sampleChain 5 = None
   \<and> snd (fetchAccountsBatch sampleEnv [100, 5, 200] []) = [GetMultipleAccounts [100, 5, 200]]"
proof -
  have h: "getMultipleAccounts sampleEnv [] [100, 5, 200] = Inr (map sampleChain [100, 5, 200])"
    by (simp add: sampleEnv_def worldEnv_def)
  have ne: "[100, 5, 200 :: pubkey] \<noteq> []" by simp
  have c: "sampleChain 5 = None"
    by (simp add: sampleChain_def WSOLMint_def sampleATA_def TokenProgramID_def
          AssociatedTokenProgramID_def)
  from fetchAccountsBatch_single_call [of sampleEnv "[]" "[100, 5, 200]" sampleChain] h ne c
  show ?thesis by (simp del: map_eq_conv)
qed

section \<open>Creation of associated token accounts\<close>

lemma ensureLoop_Instructions:
  "Instructions (ensureLoop e amap reqs result)
     = Instructions result
       @ map createATAInstruction
           (filter (\<lambda>req. case amap (ATAAddr req) of
                             None \<Rightarrow> True
                           | Some acc \<Rightarrow> Owner acc \<noteq> TokenProgram req) reqs)"
  by (induction reqs arbitrary: result) (auto split: option.splits sum.splits)

lemma ensureATABatch_Instructions:
  assumes "ensureATABatchWithBalances e requests tr = (Ok r, tr')"
  shows "\<exists>reqs amap.
           deriveATAs e requests = Inr reqs
         \<and> fetchAccountsBatch e (map ATAAddr reqs) tr = (Ok amap, tr')
         \<and> Instructions r
             = map createATAInstruction
                 (filter (\<lambda>req. case amap (ATAAddr req) of
                                   None \<Rightarrow> True
                                 | Some acc \<Rightarrow> Owner acc \<noteq> TokenProgram req) reqs)"
proof (cases "requests = []")
  case True
  with assms show ?thesis
    by (auto simp: ensureATABatchWithBalances_def fetchAccountsBatch_def)
next
  case False
  with assms show ?thesis
    by (auto simp: ensureATABatchWithBalances_def ensureLoop_Instructions
             split: sum.splits prod.splits result.splits)
qed

text \<open>
  C4, as stated: a creation instruction is emitted if and only if the address was
  absent from the batched fetch. In the world below the trader's wrapped-SOL address
  is in the fetch, as a system-owned account, and \<open>ensureATABatchWithBalances\<close> still
  emits the creation instruction for it (and records balance 0).
\<close>

theorem ensureATABatch_present_counterexample:
  "getMultipleAccounts (worldEnv systemOwnedChain) [] [sampleQuoteATA]
     = Inr [Some \<lparr>Lamports = 890880, Owner = SystemProgramID, Data = Some []\<rparr>]
   \<and> fst (ensureATABatchWithBalances (worldEnv systemOwnedChain) [sampleRequest] [])
       = Ok \<lparr>Instructions = [createATAInstruction (sampleRequest\<lparr>ATAAddr := sampleQuoteATA\<rparr>)],
            Balances = [sampleQuoteATA \<mapsto> 0]\<rparr>"
  by (simp add: ensureATABatchWithBalances_def fetchAccountsBatch_def worldEnv_def
        systemOwnedChain_def sampleRequest_def sampleQuoteATA_def findATAWithProgram_def
        SystemProgramID_def TokenProgramID_def)

text \<open>
  C4, amended. When \<open>ensureATABatchWithBalances\<close> succeeds, its instructions are, in
  request order, the creation instructions of exactly those requests whose derived
  address is absent from the single batched fetch or holds an account whose owner is
  not the request's token program. So no creation instruction is emitted for an
  address that is present and owned by the request's token program, whatever its
  balance.
\<close>

theorem ensureATABatch_creates:
  assumes "ensureATABatchWithBalances e requests tr = (Ok r, tr')"
  shows "\<exists>reqs amap.
           deriveATAs e requests = Inr reqs
         \<and> fetchAccountsBatch e (map ATAAddr reqs) tr = (Ok amap, tr')
         \<and> Instructions r
             = map createATAInstruction
                 (filter (\<lambda>req. case amap (ATAAddr req) of
                                   None \<Rightarrow> True
                                 | Some acc \<Rightarrow> Owner acc \<noteq> TokenProgram req) reqs)"
  using assms by (rule ensureATABatch_Instructions)

theorem ensureATABatch_creates_witness:
  "\<exists>reqs amap.
     deriveATAs sampleEnv [sampleBaseRequest, sampleRequest] = Inr reqs
   \<and> fetchAccountsBatch sampleEnv (map ATAAddr reqs) []
       = (Ok amap, [GetMultipleAccounts [sampleBaseATA, sampleQuoteATA]])
   \<and> [createATAInstruction (sampleBaseRequest\<lparr>ATAAddr := sampleBaseATA\<rparr>)]
       = map createATAInstruction
           (filter (\<lambda>req. case amap (ATAAddr req) of
                             None \<Rightarrow> True
                           | Some acc \<Rightarrow> Owner acc \<noteq> TokenProgram req) reqs)"
proof -
  have h: "ensureATABatchWithBalances sampleEnv [sampleBaseRequest, sampleRequest] []
             = (Ok \<lparr>Instructions = [createATAInstruction (sampleBaseRequest\<lparr>ATAAddr := sampleBaseATA\<rparr>)],
                    Balances = [sampleBaseATA \<mapsto> 0, sampleQuoteATA \<mapsto> 4000000]\<rparr>,
                [GetMultipleAccounts [sampleBaseATA, sampleQuoteATA]])"
    by (simp add: ensureATABatchWithBalances_def fetchAccountsBatch_def sampleEnv_def worldEnv_def
          sampleChain_def sampleRequest_def sampleBaseRequest_def sampleQuoteATA_def
          sampleBaseATA_def sampleATA_def findATAWithProgram_def TokenProgramID_def
          Token2022ProgramID_def WSOLMint_def AssociatedTokenProgramID_def)
  from ensureATABatch_creates [OF h] show ?thesis by simp
qed
end
